theory Spec2Isabelle
  imports Main "HOL-Library.AList"
begin

section \<open>Python values shared by the two modules\<close>

text \<open>
  The exceptions the embedded methods can raise. A raise is the value \<open>Inl e\<close>;
  where the object has already been mutated when the raise happens, the operation
  returns the mutated state beside the exception.
\<close>

datatype error = TypeError | KeyError | IndexError | AttributeError | ValueError
  | NameError | AssertionError | Exception

text \<open>Python list indexing \<open>xs[i]\<close>: a negative index counts from the end.\<close>

definition py_index :: "'a list \<Rightarrow> int \<Rightarrow> error + 'a" where
  "py_index xs i =
     (let len = int (length xs); j = (if i < 0 then len + i else i)
      in if 0 \<le> j \<and> j < len then Inr (xs ! nat j) else Inl IndexError)"

text \<open>
  A Python dict is an association list: insertion order is kept, \<open>d[k] = v\<close> is
  \<open>AList.update\<close> (in place for a key that is present, appended otherwise),
  \<open>d.get(k)\<close> is \<open>map_of\<close>, \<open>len(d)\<close> is \<open>length\<close>.
\<close>

definition dict_getitem :: "('k \<times> 'v) list \<Rightarrow> 'k \<Rightarrow> error + 'v" where
  "dict_getitem d k = (case map_of d k of None \<Rightarrow> Inl KeyError | Some v \<Rightarrow> Inr v)"

text \<open>
  Objects that are shared and mutated (gene families, edges, contigs) live in a store
  and are named by references.
\<close>

type_synonym fam_ref = nat
type_synonym edge_ref = nat
type_synonym contig_ref = nat

text \<open>
  Modelled from the spec: \<open>Organism\<close>, \<open>Gene\<close> and \<open>Contig\<close> of
  \<open>ppanggolin.genome\<close>, which is not among the sources. An organism is identified by
  its name and owns contigs; a gene has an ID, a position in its contig, its organism
  (\<open>None\<close> until filled), its contig and, once assigned, its family; a contig owns an
  ordered list of genes and the flag \<open>is_circular\<close>.
\<close>

record Organism =
  org_name :: string
  org_contigs :: "contig_ref list"

definition Organism_init :: "string \<Rightarrow> Organism" where
  "Organism_init n = \<lparr>org_name = n, org_contigs = []\<rparr>"

record Gene =
  gene_ID :: string
  position :: int
  organism :: "Organism option"
  contig :: contig_ref
  family :: "fam_ref option"

record Contig =
  contig_genes :: "Gene list"
  is_circular :: bool

section \<open>pangenome.py: GeneFamily, Edge\<close>

record Edge =
  source :: fam_ref
  target :: fam_ref
  organisms :: "(Organism option \<times> (Gene \<times> Gene) list) list"

text \<open>
  The class \<open>GeneFamily\<close> of pangenome.py. \<open>pg_bitarray\<close> is \<open>None\<close> while the
  attribute \<open>bitarray\<close> does not exist (\<open>__init__\<close> does not set it).
\<close>

record GeneFamily_pg =
  pg_name :: string
  pg_ID :: int
  pg_edges :: "(fam_ref \<times> edge_ref) list"
  pg_genePerOrg :: "(Organism option \<times> Gene set) list"
  pg_genes :: "Gene set"
  pg_removed :: bool
  pg_sequence :: string
  pg_partition :: string
  pg_bitarray :: "nat option"

definition GeneFamily_pg_init :: "int \<Rightarrow> string \<Rightarrow> GeneFamily_pg" where
  "GeneFamily_pg_init i n =
     \<lparr>pg_name = n, pg_ID = i, pg_edges = [], pg_genePerOrg = [], pg_genes = {},
      pg_removed = False, pg_sequence = [], pg_partition = [], pg_bitarray = None\<rparr>"

definition namedPartition :: "GeneFamily_pg \<Rightarrow> error + string" where
  "namedPartition self =
     (case pg_partition self of
        [] \<Rightarrow> Inl Exception
      | c # _ \<Rightarrow>
          if c = CHR ''P'' then Inr ''persistent''
          else if c = CHR ''C'' then Inr ''cloud''
          else if c = CHR ''S'' then Inr ''shell''
          else Inr ''undefined'')"

record heap =
  contig_heap :: "contig_ref \<Rightarrow> Contig"
  fam_heap :: "fam_ref \<Rightarrow> GeneFamily_pg"
  edge_heap :: "edge_ref \<Rightarrow> Edge"
  next_edge :: edge_ref

section \<open>pangenome.py: Region\<close>

text \<open>
  \<open>region_id\<close> is the identity of the object, \<open>id(self)\<close>, which \<open>__hash__\<close>
  returns: two Region objects are two members of a set even when their genes, name
  and score are the same.
\<close>

record Region =
  region_id :: nat
  genes :: "Gene list"
  region_name :: string
  score :: int

definition Region_contig :: "heap \<Rightarrow> Region \<Rightarrow> error + Contig" where
  "Region_contig h self =
     (case py_index (genes self) 0 of
        Inl e \<Rightarrow> Inl e
      | Inr g \<Rightarrow> Inr (contig_heap h (contig g)))"

subsection \<open>getBorderingGenes\<close>

text \<open>
  The first loop. \<open>left_guard\<close> is the \<open>while\<close> condition, \<open>left_body\<close> one run of
  the body: it returns the border list, the new position and whether the body left
  the loop by \<open>break\<close>.
\<close>

definition left_guard :: "Contig \<Rightarrow> int \<Rightarrow> fam_ref list \<Rightarrow> int \<Rightarrow> bool" where
  "left_guard c n border0 pos \<longleftrightarrow>
     int (length border0) < n \<and> (pos \<noteq> 0 \<and> \<not> is_circular c)"

definition left_curr_fam :: "Contig \<Rightarrow> int \<Rightarrow> error + fam_ref option" where
  "left_curr_fam c pos =
     (if pos = 0 then
        (if is_circular c then
           (case py_index (contig_genes c) (- 1) of
              Inl e \<Rightarrow> Inl e | Inr g \<Rightarrow> Inr (family g))
         else Inr None)
      else
        (case py_index (contig_genes c) (pos - 1) of
           Inl e \<Rightarrow> Inl e | Inr g \<Rightarrow> Inr (family g)))"

definition left_accept :: "heap \<Rightarrow> fam_ref set \<Rightarrow> fam_ref option \<Rightarrow> error + bool" where
  "left_accept h multigenics curr_fam =
     (case curr_fam of
        None \<Rightarrow> Inr False
      | Some f \<Rightarrow>
          if f \<in> multigenics then Inr False
          else (case namedPartition (fam_heap h f) of
                  Inl e \<Rightarrow> Inl e
                | Inr p \<Rightarrow> Inr (p = ''persistent'')))"

definition left_body ::
  "heap \<Rightarrow> Contig \<Rightarrow> fam_ref set \<Rightarrow> int \<Rightarrow> fam_ref list \<Rightarrow> int
     \<Rightarrow> error + (fam_ref list \<times> int \<times> bool)" where
  "left_body h c multigenics init border0 pos =
     (case left_curr_fam c pos of
        Inl e \<Rightarrow> Inl e
      | Inr curr_fam \<Rightarrow>
          (case left_accept h multigenics curr_fam of
             Inl e \<Rightarrow> Inl e
           | Inr acc \<Rightarrow>
               let border0' = (case curr_fam of
                                 None \<Rightarrow> border0
                               | Some f \<Rightarrow> if acc then border0 @ [f] else border0);
                   pos1 = pos - 1;
                   pos2 = (if pos1 = - 1 \<and> is_circular c
                           then int (length (contig_genes c)) else pos1)
               in Inr (border0', pos2, pos2 = init)))"

function left_loop ::
  "heap \<Rightarrow> Contig \<Rightarrow> int \<Rightarrow> fam_ref set \<Rightarrow> int \<Rightarrow> fam_ref list \<Rightarrow> int
     \<Rightarrow> error + fam_ref list" where
  "left_loop h c n multigenics init border0 pos =
     (if left_guard c n border0 pos then
        (case left_body h c multigenics init border0 pos of
           Inl e \<Rightarrow> Inl e
         | Inr (border0', pos', brk) \<Rightarrow>
             if brk then Inr border0'
             else left_loop h c n multigenics init border0' pos')
      else Inr border0)"
  by pat_completeness auto

termination
proof (relation "measure (\<lambda>(h, c, n, multigenics, init, border0, pos).
                   nat (pos + int (length (contig_genes c))))", goal_cases)
  case 1
  show ?case by simp
next
  case (2 h c n multigenics init border0 pos x2 border0' y pos' brk)
  from 2(1) have g: "pos \<noteq> 0" "\<not> is_circular c"
    by (simp_all add: left_guard_def)
  from 2(2,3,4) g obtain gn where
    ix: "py_index (contig_genes c) (pos - 1) = Inr gn" and p': "pos' = pos - 1"
    by (auto simp: left_body_def left_curr_fam_def Let_def split: sum.splits)
  from ix have "0 < pos + int (length (contig_genes c))"
    by (auto simp: py_index_def Let_def split: if_splits)
  with p' show ?case by simp
qed

declare left_loop.simps [simp del]

text \<open>
  The second loop. pangenome.py never imports \<open>logging\<close>, so the statement before
  the \<open>break\<close> raises \<open>NameError\<close>.
\<close>

definition right_guard :: "Contig \<Rightarrow> int \<Rightarrow> fam_ref list \<Rightarrow> int \<Rightarrow> bool" where
  "right_guard c n border1 pos \<longleftrightarrow>
     int (length border1) < n
     \<and> (pos \<noteq> int (length (contig_genes c)) - 1 \<and> \<not> is_circular c)"

definition right_curr_fam :: "Contig \<Rightarrow> int \<Rightarrow> error + fam_ref option" where
  "right_curr_fam c pos =
     (if pos = int (length (contig_genes c)) - 1 then
        (if is_circular c then
           (case py_index (contig_genes c) 0 of
              Inl e \<Rightarrow> Inl e | Inr g \<Rightarrow> Inr (family g))
         else Inr None)
      else
        (case py_index (contig_genes c) (pos + 1) of
           Inl e \<Rightarrow> Inl e | Inr g \<Rightarrow> Inr (family g)))"

definition right_accept :: "fam_ref set \<Rightarrow> fam_ref option \<Rightarrow> bool" where
  "right_accept multigenics curr_fam =
     (case curr_fam of None \<Rightarrow> False | Some f \<Rightarrow> f \<notin> multigenics)"

definition right_body ::
  "Contig \<Rightarrow> fam_ref set \<Rightarrow> int \<Rightarrow> fam_ref list \<Rightarrow> int
     \<Rightarrow> error + (fam_ref list \<times> int)" where
  "right_body c multigenics init border1 pos =
     (case right_curr_fam c pos of
        Inl e \<Rightarrow> Inl e
      | Inr curr_fam \<Rightarrow>
          let border1' = (case curr_fam of
                            None \<Rightarrow> border1
                          | Some f \<Rightarrow>
                              if right_accept multigenics curr_fam
                              then border1 @ [f] else border1);
              pos1 = pos + 1;
              pos2 = (if pos1 = int (length (contig_genes c)) \<and> is_circular c
                      then - 1 else pos1)
          in if pos2 = init then Inl NameError else Inr (border1', pos2))"

function right_loop ::
  "Contig \<Rightarrow> int \<Rightarrow> fam_ref set \<Rightarrow> int \<Rightarrow> fam_ref list \<Rightarrow> int
     \<Rightarrow> error + fam_ref list" where
  "right_loop c n multigenics init border1 pos =
     (if right_guard c n border1 pos then
        (case right_body c multigenics init border1 pos of
           Inl e \<Rightarrow> Inl e
         | Inr (border1', pos') \<Rightarrow> right_loop c n multigenics init border1' pos')
      else Inr border1)"
  by pat_completeness auto
termination
proof (relation "measure (\<lambda>(c, n, multigenics, init, border1, pos).
                   nat (int (length (contig_genes c)) - pos))", goal_cases)
  case 1
  show ?case by simp
next
  case (2 c n multigenics init border1 pos x2 border1' pos')
  from 2(1) have g: "pos \<noteq> int (length (contig_genes c)) - 1" "\<not> is_circular c"
    by (simp_all add: right_guard_def)
  from 2(2,3) g obtain gn where
    ix: "py_index (contig_genes c) (pos + 1) = Inr gn" and p': "pos' = pos + 1"
    by (auto simp: right_body_def right_curr_fam_def Let_def split: sum.splits if_splits)
  from ix have "pos < int (length (contig_genes c))"
    by (auto simp: py_index_def Let_def split: if_splits)
  with p' show ?case by simp
qed

declare right_loop.simps [simp del]

definition getBorderingGenes ::
  "heap \<Rightarrow> Region \<Rightarrow> int \<Rightarrow> fam_ref set \<Rightarrow> error + (fam_ref list \<times> fam_ref list)" where
  "getBorderingGenes h self n multigenics =
     (case py_index (genes self) (- 1) of
        Inl e \<Rightarrow> Inl e
      | Inr g_last \<Rightarrow>
          (case Region_contig h self of
             Inl e \<Rightarrow> Inl e
           | Inr c \<Rightarrow>
               (case left_loop h c n multigenics (position g_last) [] (position g_last) of
                  Inl e \<Rightarrow> Inl e
                | Inr border0 \<Rightarrow>
                    (case py_index (genes self) 0 of
                       Inl e \<Rightarrow> Inl e
                     | Inr g_first \<Rightarrow>
                         (case right_loop c n multigenics
                                 (position g_first) [] (position g_first) of
                            Inl e \<Rightarrow> Inl e
                          | Inr border1 \<Rightarrow> Inr (border0, border1))))))"

section \<open>pangenome.py: Edge\<close>

text \<open>
  \<open>Edge.addGenes\<close>. The attribute \<open>organisms\<close> is a \<open>defaultdict(list)\<close>: a key
  that is absent starts from the empty list.
\<close>

definition addGenes :: "heap \<Rightarrow> edge_ref \<Rightarrow> Gene \<Rightarrow> Gene \<Rightarrow> (error + unit) \<times> heap" where
  "addGenes h self sourceGene targetGene =
     (let org = organism sourceGene in
      if org \<noteq> organism targetGene then (Inl Exception, h)
      else
        let e = edge_heap h self;
            pairs = (case map_of (organisms e) org of None \<Rightarrow> [] | Some ps \<Rightarrow> ps);
            e' = e\<lparr>organisms :=
                     AList.update org (pairs @ [(sourceGene, targetGene)]) (organisms e)\<rparr>
        in (Inr (), h\<lparr>edge_heap := (edge_heap h)(self := e')\<rparr>))"

definition set_family_edge :: "heap \<Rightarrow> fam_ref \<Rightarrow> fam_ref \<Rightarrow> edge_ref \<Rightarrow> heap" where
  "set_family_edge h f neighbor e =
     h\<lparr>fam_heap := (fam_heap h)
          (f := (fam_heap h f)\<lparr>pg_edges := AList.update neighbor e (pg_edges (fam_heap h f))\<rparr>)\<rparr>"

text \<open>
  \<open>Edge.__init__\<close>. The new object takes the next free reference. The statements run
  in the order of the source: the two family checks, the registration of the edge in
  both families' \<open>_edges\<close>, then \<open>addGenes\<close>, which checks the organisms.
\<close>

definition Edge_init :: "heap \<Rightarrow> Gene \<Rightarrow> Gene \<Rightarrow> (error + edge_ref) \<times> heap" where
  "Edge_init h sourceGene targetGene =
     (case family sourceGene of
        None \<Rightarrow> (Inl Exception, h)
      | Some src \<Rightarrow>
          (case family targetGene of
             None \<Rightarrow> (Inl Exception, h)
           | Some tgt \<Rightarrow>
               let self = next_edge h;
                   h1 = h\<lparr>edge_heap := (edge_heap h)
                            (self := \<lparr>source = src, target = tgt, organisms = []\<rparr>),
                          next_edge := Suc self\<rparr>;
                   h2 = set_family_edge h1 src tgt self;
                   h3 = set_family_edge h2 tgt src self
               in (case addGenes h3 self sourceGene targetGene of
                     (Inl e, h4) \<Rightarrow> (Inl e, h4)
                   | (Inr _, h4) \<Rightarrow> (Inr self, h4))))"

definition genePairs :: "Edge \<Rightarrow> (Gene \<times> Gene) list" where
  "genePairs self = concat (map snd (organisms self))"

section \<open>pangenome.py: Pangenome\<close>

text \<open>
  \<open>orgIndex\<close> is \<open>None\<close> while the attribute \<open>_orgIndex\<close> does not exist. The key
  of \<open>_edgeGetter\<close> is the frozenset of the two genes' \<open>family\<close> attributes.
\<close>

record Pangenome =
  famGetter :: "(string \<times> fam_ref) list"
  max_fam_id :: int
  orgGetter :: "(string \<times> Organism) list"
  edgeGetter :: "(fam_ref option set \<times> edge_ref) list"
  regions :: "Region set"
  status :: "(string \<times> string) list"
  parameters :: "(string \<times> string) list"
  orgIndex :: "(Organism \<times> nat) list option"

definition Pangenome_init :: Pangenome where
  "Pangenome_init =
     \<lparr>famGetter = [], max_fam_id = 0, orgGetter = [], edgeGetter = [], regions = {},
      status = [(''genomesAnnotated'', ''No''), (''geneSequences'', ''No''),
                (''genesClustered'', ''No''), (''defragmented'', ''No''),
                (''geneFamilySequences'', ''No''), (''neighborsGraph'', ''No''),
                (''partitionned'', ''No''), (''predictedRGP'', ''No'')],
      parameters = [], orgIndex = None\<rparr>"

text \<open>The argument of \<open>addOrganism\<close>, by the two \<open>isinstance\<close> tests.\<close>

datatype newOrg_arg = An_Organism Organism | A_str string | Another_object

definition addOrganism ::
  "Pangenome \<Rightarrow> newOrg_arg \<Rightarrow> (error + newOrg_arg) \<times> Pangenome" where
  "addOrganism self newOrg =
     (case newOrg of
        An_Organism org \<Rightarrow>
          let oldLen = length (orgGetter self);
              self1 = self\<lparr>orgGetter := AList.update (org_name org) org (orgGetter self)\<rparr>
          in if length (orgGetter self1) = oldLen then (Inl KeyError, self1)
             else (Inr newOrg, self1)
      | A_str n \<Rightarrow>
          (case map_of (orgGetter self) n of
             None \<Rightarrow>
               let org = Organism_init n
               in (Inr (An_Organism org),
                   self\<lparr>orgGetter := AList.update (org_name org) org (orgGetter self)\<rparr>)
           | Some org \<Rightarrow> (Inr (An_Organism org), self))
      | Another_object \<Rightarrow> (Inr newOrg, self))"

definition addEdge ::
  "Pangenome \<Rightarrow> heap \<Rightarrow> Gene \<Rightarrow> Gene \<Rightarrow> (error + edge_ref) \<times> Pangenome \<times> heap" where
  "addEdge self h gene1 gene2 =
     (let key = {family gene1, family gene2} in
      case map_of (edgeGetter self) key of
        None \<Rightarrow>
          (case Edge_init h gene1 gene2 of
             (Inl e, h') \<Rightarrow> (Inl e, self, h')
           | (Inr edge, h') \<Rightarrow>
               (Inr edge, self\<lparr>edgeGetter := AList.update key edge (edgeGetter self)\<rparr>, h'))
      | Some edge \<Rightarrow>
          (case addGenes h edge gene1 gene2 of
             (Inl e, h') \<Rightarrow> (Inl e, self, h')
           | (Inr _, h') \<Rightarrow> (Inr edge, self, h')))"

definition getIndex :: "Pangenome \<Rightarrow> (Organism \<times> nat) list \<times> Pangenome" where
  "getIndex self =
     (case orgIndex self of
        None \<Rightarrow>
          let idx = fold (\<lambda>(index, org) d. AList.update org index d)
                         (enumerate 0 (map snd (orgGetter self))) []
          in (idx, self\<lparr>orgIndex := Some idx\<rparr>)
      | Some idx \<Rightarrow> (idx, self))"

text \<open>
  \<open>GeneFamily.mkBitarray\<close> of pangenome.py: \<open>pg_set_bits\<close> is its loop over
  \<open>self.organisms\<close>, the keys of \<open>_genePerOrg\<close>, on the value of the new \<open>xmpz\<close>.
\<close>

fun pg_set_bits ::
  "(Organism \<times> nat) list \<Rightarrow> Organism option list \<Rightarrow> nat \<Rightarrow> (error + unit) \<times> nat" where
  "pg_set_bits index [] b = (Inr (), b)"
| "pg_set_bits index (org # orgs) b =
     (case (case org of None \<Rightarrow> Inl KeyError | Some k \<Rightarrow> dict_getitem index k) of
        Inl e \<Rightarrow> (Inl e, b)
      | Inr i \<Rightarrow> pg_set_bits index orgs (set_bit i b))"

definition mkBitarray ::
  "GeneFamily_pg \<Rightarrow> (Organism \<times> nat) list \<Rightarrow> (error + unit) \<times> GeneFamily_pg" where
  "mkBitarray self index =
     (case pg_set_bits index (map fst (pg_genePerOrg self)) 0 of
        (r, b) \<Rightarrow> (r, self\<lparr>pg_bitarray := Some b\<rparr>))"

fun mkBitarray_families ::
  "heap \<Rightarrow> (Organism \<times> nat) list \<Rightarrow> fam_ref list \<Rightarrow> (error + unit) \<times> heap" where
  "mkBitarray_families h index [] = (Inr (), h)"
| "mkBitarray_families h index (fam # fams) =
     (case mkBitarray (fam_heap h fam) index of
        (Inl e, fam') \<Rightarrow> (Inl e, h\<lparr>fam_heap := (fam_heap h)(fam := fam')\<rparr>)
      | (Inr _, fam') \<Rightarrow>
          mkBitarray_families (h\<lparr>fam_heap := (fam_heap h)(fam := fam')\<rparr>) index fams)"

definition computeFamilyBitarrays ::
  "Pangenome \<Rightarrow> heap \<Rightarrow> (error + (Organism \<times> nat) list) \<times> Pangenome \<times> heap" where
  "computeFamilyBitarrays self h =
     (case orgIndex self of
        None \<Rightarrow>
          (case getIndex self of
             (idx, self1) \<Rightarrow>
               (case mkBitarray_families h idx (map snd (famGetter self1)) of
                  (Inl e, h') \<Rightarrow> (Inl e, self1, h')
                | (Inr _, h') \<Rightarrow> (Inr idx, self1, h')))
      | Some idx \<Rightarrow> (Inr idx, self, h))"

text \<open>
  The argument of \<open>addRegions\<close>, by its two \<open>isinstance\<close> tests. \<open>Region\<close> defines
  \<open>__len__\<close> and \<open>__getitem__\<close> and no \<open>__iter__\<close>, so a Region is not an instance
  of \<open>collections.abc.Iterable\<close> and reaches the second branch. There the right
  operand of \<open>|=\<close> is the Region itself: \<open>set_ior\<close> is \<open>|=\<close> on a set, which
  accepts a set and raises \<open>TypeError\<close> for an operand that is no set and defines
  no reflected \<open>__ror__\<close>.
\<close>

datatype regionGroup_arg = An_Iterable "Region list" | A_Region Region | Other_object

datatype 'a ior_operand = A_set "'a set" | Not_a_set

definition set_ior :: "'a set \<Rightarrow> 'a ior_operand \<Rightarrow> error + 'a set" where
  "set_ior s operand =
     (case operand of A_set t \<Rightarrow> Inr (s \<union> t) | Not_a_set \<Rightarrow> Inl TypeError)"

definition addRegions :: "Pangenome \<Rightarrow> regionGroup_arg \<Rightarrow> (error + unit) \<times> Pangenome" where
  "addRegions self regionGroup =
     (case regionGroup of
        An_Iterable rs \<Rightarrow>
          (case set_ior (regions self) (A_set (set rs)) of
             Inl e \<Rightarrow> (Inl e, self)
           | Inr s \<Rightarrow> (Inr (), self\<lparr>regions := s\<rparr>))
      | A_Region r \<Rightarrow>
          (case set_ior (regions self) Not_a_set of
             Inl e \<Rightarrow> (Inl e, self)
           | Inr s \<Rightarrow> (Inr (), self\<lparr>regions := s\<rparr>))
      | Other_object \<Rightarrow> (Inl TypeError, self))"

section \<open>geneFamily.py: GeneFamily\<close>

text \<open>
  The attributes \<open>GeneFamily.__init__\<close> creates: \<open>edges_of\<close> is \<open>_edges\<close>,
  \<open>genePerOrg\<close> the \<open>defaultdict(set)\<close> \<open>_genePerOrg\<close>, \<open>genes_getter\<close> the dict
  \<open>_genes_getter\<close> from gene ID to gene, \<open>spots\<close> and \<open>modules\<close> the sets \<open>_spots\<close>
  and \<open>_modules\<close>; \<open>bitarray\<close> starts as \<open>None\<close>.
\<close>

record GeneFamily =
  name :: string
  ID :: int
  edges_of :: "(fam_ref \<times> edge_ref) list"
  genePerOrg :: "(Organism \<times> Gene set) list"
  genes_getter :: "(string \<times> Gene) list"
  removed :: bool
  sequence :: string
  partition :: string
  spots :: "nat set"
  modules :: "nat set"
  bitarray :: "nat option"

definition GeneFamily_init :: "int \<Rightarrow> string \<Rightarrow> error + GeneFamily" where
  "GeneFamily_init family_id n =
     (if n = [] then Inl AssertionError
      else Inr \<lparr>name = n, ID = family_id, edges_of = [], genePerOrg = [],
                genes_getter = [], removed = False, sequence = [], partition = [],
                spots = {}, modules = {}, bitarray = None\<rparr>)"

definition named_partition :: "GeneFamily \<Rightarrow> error + string" where
  "named_partition self =
     (case partition self of
        [] \<Rightarrow> Inl ValueError
      | c # _ \<Rightarrow>
          if c = CHR ''P'' then Inr ''persistent''
          else if c = CHR ''C'' then Inr ''cloud''
          else if c = CHR ''S'' then Inr ''shell''
          else Inr ''undefined'')"

text \<open>\<open>d[org].add(gene)\<close> on a \<open>defaultdict(set)\<close>.\<close>

definition defaultdict_add ::
  "('k \<times> 'v set) list \<Rightarrow> 'k \<Rightarrow> 'v \<Rightarrow> ('k \<times> 'v set) list" where
  "defaultdict_add d k v =
     AList.update k (insert v (case map_of d k of None \<Rightarrow> {} | Some s \<Rightarrow> s)) d"

text \<open>
  \<open>__setitem__\<close> and \<open>add\<close>. \<open>add\<close> takes the reference of the family itself, which
  it writes into the gene's \<open>family\<close>; the gene stored in the family is that same
  object.
\<close>

definition GeneFamily_setitem ::
  "GeneFamily \<Rightarrow> string \<Rightarrow> Gene \<Rightarrow> (error + unit) \<times> GeneFamily" where
  "GeneFamily_setitem self identifier gene =
     (if identifier \<in> fst ` set (genes_getter self) then (Inl KeyError, self)
      else (Inr (), self\<lparr>genes_getter := AList.update identifier gene (genes_getter self)\<rparr>))"

definition GeneFamily_add ::
  "fam_ref \<Rightarrow> GeneFamily \<Rightarrow> Gene \<Rightarrow> (error + unit) \<times> GeneFamily" where
  "GeneFamily_add self_ref self gene =
     (let gene' = gene\<lparr>family := Some self_ref\<rparr> in
      case GeneFamily_setitem self (gene_ID gene) gene' of
        (Inl e, self1) \<Rightarrow> (Inl e, self1)
      | (Inr _, self1) \<Rightarrow>
          (case organism gene of
             None \<Rightarrow> (Inr (), self1)
           | Some org \<Rightarrow>
               (Inr (), self1\<lparr>genePerOrg := defaultdict_add (genePerOrg self1) org gene'\<rparr>)))"



text \<open>
  \<open>get_org_dict\<close>: \<open>fill_genePerOrg\<close> is its loop over \<open>self.genes\<close>, the values of
  \<open>_genes_getter\<close>; it returns the cache as it stands when the loop ends or raises.
\<close>

fun fill_genePerOrg ::
  "(Organism \<times> Gene set) list \<Rightarrow> Gene list
     \<Rightarrow> (error + unit) \<times> (Organism \<times> Gene set) list" where
  "fill_genePerOrg d [] = (Inr (), d)"
| "fill_genePerOrg d (gene # gs) =
     (case organism gene of
        None \<Rightarrow> (Inl AttributeError, d)
      | Some org \<Rightarrow> fill_genePerOrg (defaultdict_add d org gene) gs)"

definition get_org_dict ::
  "GeneFamily \<Rightarrow> (error + (Organism \<times> Gene set) list) \<times> GeneFamily" where
  "get_org_dict self =
     (if length (genePerOrg self) = 0 then
        (case fill_genePerOrg (genePerOrg self) (map snd (genes_getter self)) of
           (Inl e, d) \<Rightarrow> (Inl e, self\<lparr>genePerOrg := d\<rparr>)
         | (Inr _, d) \<Rightarrow> (Inr d, self\<lparr>genePerOrg := d\<rparr>))
      else (Inr (genePerOrg self), self))"

text \<open>The property \<open>organisms\<close>: the organisms it yields, in order.\<close>

definition GeneFamily_organisms ::
  "GeneFamily \<Rightarrow> (error + Organism list) \<times> GeneFamily" where
  "GeneFamily_organisms self =
     (if length (genePerOrg self) = 0 then
        (case get_org_dict self of
           (Inl e, self1) \<Rightarrow> (Inl e, self1)
         | (Inr _, self1) \<Rightarrow> (Inr (map fst (genePerOrg self1)), self1))
      else (Inr (map fst (genePerOrg self)), self))"

text \<open>
  \<open>mk_bitarray\<close>. The three branches run the same loop,
  \<open>for org in self.organisms: self.bitarray[index[org]] = 1\<close>, which is
  \<open>set_organism_bits\<close> (\<open>set_bits\<close> on the value of the \<open>xmpz\<close>, which is 0 when the
  loop starts).
\<close>

fun set_bits ::
  "(Organism \<times> nat) list \<Rightarrow> Organism list \<Rightarrow> nat \<Rightarrow> (error + unit) \<times> nat" where
  "set_bits index [] b = (Inr (), b)"
| "set_bits index (org # orgs) b =
     (case dict_getitem index org of
        Inl e \<Rightarrow> (Inl e, b)
      | Inr i \<Rightarrow> set_bits index orgs (set_bit i b))"

definition set_organism_bits ::
  "GeneFamily \<Rightarrow> (Organism \<times> nat) list \<Rightarrow> (error + unit) \<times> GeneFamily" where
  "set_organism_bits self index =
     (case GeneFamily_organisms self of
        (Inl e, self1) \<Rightarrow> (Inl e, self1)
      | (Inr orgs, self1) \<Rightarrow>
          (case set_bits index orgs 0 of
             (r, b) \<Rightarrow> (r, self1\<lparr>bitarray := Some b\<rparr>)))"

definition mk_bitarray ::
  "GeneFamily \<Rightarrow> (Organism \<times> nat) list \<Rightarrow> string \<Rightarrow> (error + unit) \<times> GeneFamily" where
  "mk_bitarray self index part =
     (let self0 = self\<lparr>bitarray := Some 0\<rparr> in
      if part = ''all'' then set_organism_bits self0 index
      else if part \<in> set [''shell'', ''cloud''] then
        (case named_partition self0 of
           Inl e \<Rightarrow> (Inl e, self0)
         | Inr np \<Rightarrow>
             if np = part then set_organism_bits self0 index else (Inr (), self0))
      else if part = ''accessory'' then
        (case named_partition self0 of
           Inl e \<Rightarrow> (Inl e, self0)
         | Inr np \<Rightarrow>
             if np \<in> set [''shell'', ''cloud''] then set_organism_bits self0 index
             else (Inr (), self0))
      else (Inr (), self0))"

text \<open>
  \<open>len(self.<attribute>)\<close> on a GeneFamily, for the attributes of the record above:
  an attribute that \<open>__init__\<close> never creates raises \<open>AttributeError\<close>, and \<open>len\<close>
  of an integer, a Boolean or \<open>None\<close> raises \<open>TypeError\<close>.
\<close>

definition len_of_attribute :: "GeneFamily \<Rightarrow> string \<Rightarrow> error + nat" where
  "len_of_attribute self a =
     (if a = ''name'' then Inr (length (name self))
      else if a = ''ID'' then Inl TypeError
      else if a = ''_edges'' then Inr (length (edges_of self))
      else if a = ''_genePerOrg'' then Inr (length (genePerOrg self))
      else if a = ''_genes_getter'' then Inr (length (genes_getter self))
      else if a = ''removed'' then Inl TypeError
      else if a = ''sequence'' then Inr (length (sequence self))
      else if a = ''partition'' then Inr (length (partition self))
      else if a = ''_spots'' then Inr (card (spots self))
      else if a = ''_modules'' then Inr (card (modules self))
      else if a = ''bitarray'' then Inl TypeError
      else Inl AttributeError)"

definition GeneFamily_len :: "GeneFamily \<Rightarrow> error + nat" where
  "GeneFamily_len self = len_of_attribute self ''_genes_getter''"

definition number_of_edges :: "GeneFamily \<Rightarrow> error + nat" where
  "number_of_edges self = len_of_attribute self ''_edges''"

definition number_of_genes :: "GeneFamily \<Rightarrow> error + nat" where
  "number_of_genes self = len_of_attribute self ''_genes''"



definition genePerOrg_complete :: "GeneFamily \<Rightarrow> bool" where
  "genePerOrg_complete self \<longleftrightarrow>
     set (map fst (genePerOrg self))
       = set (List.map_filter organism (map snd (genes_getter self)))"

section \<open>Concrete inputs\<close>

text \<open>
  Three organisms and a second object \<open>ex_orgA2\<close> that carries the name of the first;
  five families of pangenome.py, of partitions P, P, S, C, S; for each organism a
  contig with one gene of each family, all linear or all circular; the region made of
  the gene at position 2 of the contig of organism A.
\<close>

definition ex_orgA :: Organism where
  "ex_orgA = \<lparr>org_name = ''A'', org_contigs = [0]\<rparr>"

definition ex_orgA2 :: Organism where
  "ex_orgA2 = \<lparr>org_name = ''A'', org_contigs = []\<rparr>"

definition ex_orgB :: Organism where
  "ex_orgB = \<lparr>org_name = ''B'', org_contigs = [1]\<rparr>"

definition ex_orgC :: Organism where
  "ex_orgC = \<lparr>org_name = ''C'', org_contigs = [2]\<rparr>"

definition ex_digit :: "nat \<Rightarrow> string" where
  "ex_digit f =
     (if f = 0 then ''0'' else if f = 1 then ''1'' else if f = 2 then ''2''
      else if f = 3 then ''3'' else ''4'')"

definition ex_gene :: "Organism \<Rightarrow> nat \<Rightarrow> Gene" where
  "ex_gene org f =
     \<lparr>gene_ID = org_name org @ ex_digit f, position = int f, organism = Some org,
      contig = (case org_contigs org of [] \<Rightarrow> 0 | c # _ \<Rightarrow> c), family = Some f\<rparr>"

definition ex_partition :: "fam_ref \<Rightarrow> string" where
  "ex_partition f =
     (if f = 0 \<or> f = 1 then ''P'' else if f = 2 \<or> f = 4 then ''S'' else ''C'')"

definition ex_family :: "fam_ref \<Rightarrow> GeneFamily_pg" where
  "ex_family f =
     (GeneFamily_pg_init (int f) ''fam'')
       \<lparr>pg_partition := ex_partition f,
        pg_genes := {ex_gene ex_orgA f, ex_gene ex_orgB f},
        pg_genePerOrg := [(Some ex_orgA, {ex_gene ex_orgA f}),
                          (Some ex_orgB, {ex_gene ex_orgB f})]\<rparr>"

definition ex_contig :: "bool \<Rightarrow> contig_ref \<Rightarrow> Contig" where
  "ex_contig circ r =
     \<lparr>contig_genes = map (ex_gene (if r = 0 then ex_orgA else if r = 1 then ex_orgB
                                     else ex_orgC)) [0, 1, 2, 3, 4],
      is_circular = circ\<rparr>"

definition ex_heap :: "bool \<Rightarrow> heap" where
  "ex_heap circ =
     \<lparr>contig_heap = ex_contig circ, fam_heap = ex_family,
      edge_heap = (\<lambda>_. \<lparr>source = 0, target = 0, organisms = []\<rparr>), next_edge = 0\<rparr>"

definition ex_region :: Region where
  "ex_region =
     \<lparr>region_id = 0, genes = [ex_gene ex_orgA 2], region_name = ''rgp'', score = 0\<rparr>"

text \<open>
  A family of geneFamily.py, of partition S, with one gene in organism A and one in
  organism C, and the index of the organisms A, B, C.
\<close>

definition ex_GeneFamily :: GeneFamily where
  "ex_GeneFamily =
     \<lparr>name = ''fam'', ID = 0, edges_of = [],
      genePerOrg = [(ex_orgA, {ex_gene ex_orgA 0}), (ex_orgC, {ex_gene ex_orgC 0})],
      genes_getter = [(''A0'', ex_gene ex_orgA 0), (''C0'', ex_gene ex_orgC 0)],
      removed = False, sequence = [], partition = ''S'', spots = {}, modules = {},
      bitarray = None\<rparr>"

definition ex_index :: "(Organism \<times> nat) list" where
  "ex_index = [(ex_orgA, 0), (ex_orgB, 1), (ex_orgC, 2)]"






text \<open>
  A pangenome with the organisms A and B and the families 0 and 1 of the store
  \<open>ex_heap\<close>, each of them with a gene in A and a gene in B.
\<close>

definition ex_pangenome :: Pangenome where
  "ex_pangenome =
     Pangenome_init\<lparr>famGetter := [(''fam0'', 0), (''fam1'', 1)],
                    max_fam_id := 2,
                    orgGetter := [(''A'', ex_orgA), (''B'', ex_orgB)]\<rparr>"

text \<open>
  Two genes of organism A, of the families 0 and 1, and the two calls of addEdge on
  them, the second with the genes swapped and on the state the first call left.
\<close>

definition ex_first_addEdge :: "(error + edge_ref) \<times> Pangenome \<times> heap" where
  "ex_first_addEdge =
     addEdge Pangenome_init (ex_heap False)
       (ex_gene ex_orgA 0) (ex_gene ex_orgA 1)"

definition ex_second_addEdge :: "(error + edge_ref) \<times> Pangenome \<times> heap" where
  "ex_second_addEdge =
     addEdge (fst (snd ex_first_addEdge)) (snd (snd ex_first_addEdge))
       (ex_gene ex_orgA 1) (ex_gene ex_orgA 0)"

section \<open>Region.getBorderingGenes\<close>

lemma left_loop_circular:
  "is_circular c \<Longrightarrow> left_loop h c n multigenics init border0 pos = Inr border0"
  by (subst left_loop.simps) (simp add: left_guard_def)

lemma right_loop_circular:
  "is_circular c \<Longrightarrow> right_loop c n multigenics init border1 pos = Inr border1"
  by (subst right_loop.simps) (simp add: right_guard_def)

text \<open>
  On a circular contig neither loop runs its body: both lists come back empty,
  whatever \<open>n\<close> is.
\<close>

lemma getBorderingGenes_circular:
  assumes "genes self \<noteq> []"
    and "is_circular (contig_heap h (contig (hd (genes self))))"
  shows "getBorderingGenes h self n multigenics = Inr ([], [])"
proof -
  from assms(1) obtain g gs where gs: "genes self = g # gs"
    by (cases "genes self") auto
  then have c: "Region_contig h self = Inr (contig_heap h (contig g))"
    by (simp add: Region_contig_def py_index_def)
  have "\<exists>gl. py_index (genes self) (- 1) = Inr gl"
    using gs by (simp add: py_index_def Let_def)
  then obtain gl where gl: "py_index (genes self) (- 1) = Inr gl" ..
  have f: "py_index (genes self) 0 = Inr g"
    using gs by (simp add: py_index_def)
  from assms(2) gs have circ: "is_circular (contig_heap h (contig g))"
    by simp
  show ?thesis
    by (simp add: getBorderingGenes_def gl c f left_loop_circular [OF circ]
        right_loop_circular [OF circ])
qed

text \<open>
  C1. Claimed: on a circular contig getBorderingGenes terminates for every n, because
  the outward walk wraps from position 0 to the last index of the contig and goes on
  until it is back at its start. What the code does: both loops are total functions,
  so the call does terminate; but on the circular contig of five genes, one of each
  family, around the region made of the gene at position 2 and with n = 6, it returns
  two empty lists: no step of the walk is made and nothing wraps. On the same contig
  declared linear the walk finds the families 1, 0 on one side and 3, 4 on the other.
\<close>

theorem getBorderingGenes_circular_no_walk:
  "getBorderingGenes (ex_heap True) ex_region 6 {} = Inr ([], [])
   \<and> getBorderingGenes (ex_heap False) ex_region 6 {} = Inr ([1, 0], [3, 4])"
  by (simp add: getBorderingGenes_def ex_heap_def ex_region_def ex_contig_def ex_gene_def ex_digit_def
      Region_contig_def py_index_def left_loop.simps right_loop.simps left_guard_def
      right_guard_def left_body_def right_body_def left_curr_fam_def right_curr_fam_def
      left_accept_def right_accept_def namedPartition_def ex_family_def ex_partition_def
      GeneFamily_pg_init_def Let_def)

lemma left_accept_True:
  "left_accept h multigenics curr_fam = Inr True \<Longrightarrow>
     \<exists>f. curr_fam = Some f \<and> f \<notin> multigenics
          \<and> namedPartition (fam_heap h f) = Inr ''persistent''"
  by (auto simp: left_accept_def split: option.splits if_splits sum.splits)

lemma left_body_border:
  assumes "left_body h c multigenics init border0 pos = Inr (border0', pos', brk)"
  shows "border0' = border0
         \<or> (\<exists>f. border0' = border0 @ [f] \<and> f \<notin> multigenics
                 \<and> namedPartition (fam_heap h f) = Inr ''persistent'')"
  using assms
  by (auto simp: left_body_def Let_def split: sum.splits if_splits option.splits
      dest: left_accept_True)

lemma left_loop_border:
  assumes "left_loop h c n multigenics init border0 pos = Inr border"
    and "\<forall>f\<in>set border0. f \<notin> multigenics
            \<and> namedPartition (fam_heap h f) = Inr ''persistent''"
  shows "\<forall>f\<in>set border. f \<notin> multigenics
            \<and> namedPartition (fam_heap h f) = Inr ''persistent''"
  using assms
proof (induction h c n multigenics init border0 pos rule: left_loop.induct)
  case (1 h c n multigenics init border0 pos)
  show ?case
  proof (cases "left_guard c n border0 pos")
    case False
    with "1.prems" show ?thesis
      by (simp add: left_loop.simps)
  next
    case True
    with "1.prems"(1) obtain border0' pos' brk where
      body: "left_body h c multigenics init border0 pos = Inr (border0', pos', brk)"
      and rest: "(if brk then Inr border0'
                  else left_loop h c n multigenics init border0' pos') = Inr border"
      by (subst (asm) left_loop.simps) (auto split: sum.splits)
    from left_body_border [OF body] "1.prems"(2)
    have inv: "\<forall>f\<in>set border0'. f \<notin> multigenics
                 \<and> namedPartition (fam_heap h f) = Inr ''persistent''"
      by auto
    show ?thesis
    proof (cases brk)
      case True
      with rest inv show ?thesis by simp
    next
      case False
      with rest have "left_loop h c n multigenics init border0' pos' = Inr border"
        by simp
      from "1.IH" [OF True body refl refl False this inv] show ?thesis .
    qed
  qed
qed

lemma right_body_border:
  assumes "right_body c multigenics init border1 pos = Inr (border1', pos')"
  shows "border1' = border1 \<or> (\<exists>f. border1' = border1 @ [f] \<and> f \<notin> multigenics)"
  using assms
  by (auto simp: right_body_def right_accept_def Let_def
      split: sum.splits if_splits option.splits)

lemma right_loop_border:
  assumes "right_loop c n multigenics init border1 pos = Inr border"
    and "\<forall>f\<in>set border1. f \<notin> multigenics"
  shows "\<forall>f\<in>set border. f \<notin> multigenics"
  using assms
proof (induction c n multigenics init border1 pos rule: right_loop.induct)
  case (1 c n multigenics init border1 pos)
  show ?case
  proof (cases "right_guard c n border1 pos")
    case False
    with "1.prems" show ?thesis
      by (simp add: right_loop.simps)
  next
    case True
    with "1.prems"(1) obtain border1' pos' where
      body: "right_body c multigenics init border1 pos = Inr (border1', pos')"
      and rest: "right_loop c n multigenics init border1' pos' = Inr border"
      by (subst (asm) right_loop.simps) (auto split: sum.splits)
    from right_body_border [OF body] "1.prems"(2)
    have inv: "\<forall>f\<in>set border1'. f \<notin> multigenics"
      by auto
    from "1.IH" [OF True body refl rest inv] show ?thesis .
  qed
qed

text \<open>
  C2. Every family in the first list returned by getBorderingGenes, the left border,
  is outside \<open>multigenics\<close> and has the named partition persistent; every family in
  the second list, the right border, is outside \<open>multigenics\<close>, with no condition on
  its partition. In the witness the right border holds family 3, whose partition is
  cloud.
\<close>

theorem getBorderingGenes_filters:
  assumes "getBorderingGenes h self n multigenics = Inr (border0, border1)"
  shows "(\<forall>f\<in>set border0. f \<notin> multigenics
            \<and> namedPartition (fam_heap h f) = Inr ''persistent'')
         \<and> (\<forall>f\<in>set border1. f \<notin> multigenics)"
proof -
  from assms have "\<exists>c pl pr.
      left_loop h c n multigenics pl [] pl = Inr border0
      \<and> right_loop c n multigenics pr [] pr = Inr border1"
    by (auto simp: getBorderingGenes_def split: sum.splits)
  then obtain c pl pr where
    l: "left_loop h c n multigenics pl [] pl = Inr border0"
    and r: "right_loop c n multigenics pr [] pr = Inr border1"
    by blast
  from left_loop_border [OF l] right_loop_border [OF r] show ?thesis
    by simp
qed

lemma ex_getBorderingGenes:
  "getBorderingGenes (ex_heap False) ex_region 6 {1, 4} = Inr ([0], [3])"
  by (simp add: getBorderingGenes_def ex_heap_def ex_region_def ex_contig_def ex_gene_def ex_digit_def
      Region_contig_def py_index_def left_loop.simps right_loop.simps left_guard_def
      right_guard_def left_body_def right_body_def left_curr_fam_def right_curr_fam_def
      left_accept_def right_accept_def namedPartition_def ex_family_def ex_partition_def
      GeneFamily_pg_init_def Let_def)

theorem getBorderingGenes_filters_witness:
  "getBorderingGenes (ex_heap False) ex_region 6 {1, 4} = Inr ([0], [3])
   \<and> (0 :: nat) \<notin> {1, 4}
   \<and> namedPartition (fam_heap (ex_heap False) 0) = Inr ''persistent''
   \<and> (3 :: nat) \<notin> {1, 4}
   \<and> namedPartition (fam_heap (ex_heap False) 3) = Inr ''cloud''"
  using getBorderingGenes_filters [OF ex_getBorderingGenes] ex_getBorderingGenes
  by (simp add: ex_heap_def ex_family_def ex_partition_def namedPartition_def)

section \<open>Pangenome.addOrganism\<close>

text \<open>
  C3. Claimed: addOrganism with an Organism instance whose name is already
  registered fails with a conflict signal and leaves the organism getter unchanged,
  so that the name still leads to the organism registered before. What the code does:
  on the pangenome that holds \<open>ex_orgA\<close> under the name A, adding the other object
  \<open>ex_orgA2\<close> of the same name raises KeyError, and the getter then returns
  \<open>ex_orgA2\<close> for the name A; the registered organism has been replaced.
\<close>

theorem addOrganism_duplicate_overwrites:
  "fst (addOrganism Pangenome_init (An_Organism ex_orgA)) = Inr (An_Organism ex_orgA)
   \<and> map_of (orgGetter (snd (addOrganism Pangenome_init (An_Organism ex_orgA)))) ''A''
       = Some ex_orgA
   \<and> fst (addOrganism (snd (addOrganism Pangenome_init (An_Organism ex_orgA)))
            (An_Organism ex_orgA2)) = Inl KeyError
   \<and> map_of (orgGetter (snd (addOrganism
            (snd (addOrganism Pangenome_init (An_Organism ex_orgA)))
            (An_Organism ex_orgA2)))) ''A'' = Some ex_orgA2
   \<and> ex_orgA2 \<noteq> ex_orgA"
  by (simp add: addOrganism_def Pangenome_init_def ex_orgA_def ex_orgA2_def Let_def)

section \<open>Pangenome.addEdge\<close>

text \<open>
  C4. Claimed: building an edge between two genes of different organisms, both with
  a family, fails and leaves no partial mutation, neither in the families' edge maps
  nor in the edge getter of the pangenome. What the code does: with a gene of family 0
  in organism A and a gene of family 1 in organism B, and no edge yet, addEdge raises
  and the edge getter stays empty; but the edge maps of both families, empty before
  the call, now hold the edge object that was being built.
\<close>

theorem addEdge_cross_organism_registers_edge:
  "fst (addEdge Pangenome_init (ex_heap False)
          (ex_gene ex_orgA 0) (ex_gene ex_orgB 1)) = Inl Exception
   \<and> edgeGetter (fst (snd (addEdge Pangenome_init (ex_heap False)
          (ex_gene ex_orgA 0) (ex_gene ex_orgB 1)))) = []
   \<and> pg_edges (fam_heap (ex_heap False) 0) = []
   \<and> pg_edges (fam_heap (ex_heap False) 1) = []
   \<and> pg_edges (fam_heap (snd (snd (addEdge Pangenome_init (ex_heap False)
          (ex_gene ex_orgA 0) (ex_gene ex_orgB 1)))) 0) = [(1, 0)]
   \<and> pg_edges (fam_heap (snd (snd (addEdge Pangenome_init (ex_heap False)
          (ex_gene ex_orgA 0) (ex_gene ex_orgB 1)))) 1) = [(0, 0)]"
  by (simp add: addEdge_def Pangenome_init_def ex_heap_def ex_gene_def ex_digit_def Edge_init_def
      addGenes_def set_family_edge_def Let_def ex_orgA_def ex_orgB_def ex_family_def
      GeneFamily_pg_init_def)

lemma update_absent_appends:
  "map_of al k = None \<Longrightarrow> AList.update k v al = al @ [(k, v)]"
  by (induction al) (auto split: if_splits)

lemma addGenes_same_organism:
  "organism g1 = organism g2 \<Longrightarrow>
     addGenes h e g1 g2 =
       (Inr (), h\<lparr>edge_heap := (edge_heap h)
          (e := (edge_heap h e)\<lparr>organisms :=
             AList.update (organism g1)
               ((case map_of (organisms (edge_heap h e)) (organism g1) of
                   None \<Rightarrow> [] | Some ps \<Rightarrow> ps) @ [(g1, g2)])
               (organisms (edge_heap h e))\<rparr>)\<rparr>)"
  by (simp add: addGenes_def Let_def)

lemma addEdge_first:
  assumes "family g1 = Some f1" and "family g2 = Some f2"
    and "organism g1 = organism g2"
    and "map_of (edgeGetter self) {Some f1, Some f2} = None"
  shows "addEdge self h g1 g2 =
     (Inr (next_edge h),
      self\<lparr>edgeGetter := edgeGetter self @ [({Some f1, Some f2}, next_edge h)]\<rparr>,
      (set_family_edge (set_family_edge
          (h\<lparr>edge_heap := (edge_heap h)
                (next_edge h := \<lparr>source = f1, target = f2, organisms = []\<rparr>),
              next_edge := Suc (next_edge h)\<rparr>) f1 f2 (next_edge h)) f2 f1 (next_edge h))
        \<lparr>edge_heap := (edge_heap h)
           (next_edge h := \<lparr>source = f1, target = f2,
                             organisms = [(organism g1, [(g1, g2)])]\<rparr>)\<rparr>)"
  using assms
  by (simp add: addEdge_def Edge_init_def Let_def addGenes_same_organism
      update_absent_appends set_family_edge_def)

text \<open>
  C8. For two genes of the same organism whose families are assigned, and no edge yet
  between these families, add_edge(g1, g2) followed by add_edge(g2, g1) gives exactly
  one Edge object: both calls return the same reference, the one object created, the
  edge getter has gained one entry under the unordered pair of the families, both
  families' edge maps lead to that object, and its gene pairs are (g1, g2) and
  (g2, g1).
\<close>

theorem addEdge_swapped_one_edge:
  assumes "family g1 = Some f1" and "family g2 = Some f2"
    and "organism g1 = organism g2"
    and "map_of (edgeGetter self) {Some f1, Some f2} = None"
    and "addEdge self h g1 g2 = (r1, self1, h1)"
    and "addEdge self1 h1 g2 g1 = (r2, self2, h2)"
  shows "r1 = Inr (next_edge h) \<and> r2 = Inr (next_edge h)
         \<and> next_edge h2 = Suc (next_edge h)
         \<and> edgeGetter self2 = edgeGetter self @ [({Some f1, Some f2}, next_edge h)]
         \<and> map_of (pg_edges (fam_heap h2 f1)) f2 = Some (next_edge h)
         \<and> map_of (pg_edges (fam_heap h2 f2)) f1 = Some (next_edge h)
         \<and> source (edge_heap h2 (next_edge h)) = f1
         \<and> target (edge_heap h2 (next_edge h)) = f2
         \<and> genePairs (edge_heap h2 (next_edge h)) = [(g1, g2), (g2, g1)]"
proof -
  note first = addEdge_first [OF assms(1-4), of h]
  from first assms(5) have r1: "r1 = Inr (next_edge h)"
    and s1: "self1 = self\<lparr>edgeGetter := edgeGetter self @ [({Some f1, Some f2}, next_edge h)]\<rparr>"
    and h1: "h1 = (set_family_edge (set_family_edge
          (h\<lparr>edge_heap := (edge_heap h)
                (next_edge h := \<lparr>source = f1, target = f2, organisms = []\<rparr>),
              next_edge := Suc (next_edge h)\<rparr>) f1 f2 (next_edge h)) f2 f1 (next_edge h))
        \<lparr>edge_heap := (edge_heap h)
           (next_edge h := \<lparr>source = f1, target = f2,
                             organisms = [(organism g1, [(g1, g2)])]\<rparr>)\<rparr>"
    by simp_all
  have key: "{family g2, family g1} = {Some f1, Some f2}"
    using assms(1,2) by auto
  have look: "map_of (edgeGetter self1) {family g2, family g1} = Some (next_edge h)"
    using assms(4) by (simp add: s1 key map_add_def)
  have second: "addEdge self1 h1 g2 g1 =
      (Inr (next_edge h), self1,
       h1\<lparr>edge_heap := (edge_heap h1)
          (next_edge h := (edge_heap h1 (next_edge h))\<lparr>organisms :=
             [(organism g1, [(g1, g2), (g2, g1)])]\<rparr>)\<rparr>)"
    using assms(3) look
    by (simp add: addEdge_def Let_def addGenes_same_organism [of g2 g1] h1 set_family_edge_def)
  from second assms(6) have r2: "r2 = Inr (next_edge h)" and s2: "self2 = self1"
    and h2: "h2 = h1\<lparr>edge_heap := (edge_heap h1)
          (next_edge h := (edge_heap h1 (next_edge h))\<lparr>organisms :=
             [(organism g1, [(g1, g2), (g2, g1)])]\<rparr>)\<rparr>"
    by simp_all
  show ?thesis
    by (simp add: r1 r2 s2 s1 h2 h1 set_family_edge_def genePairs_def update_conv')
qed

theorem addEdge_swapped_one_edge_witness:
  "family (ex_gene ex_orgA 0) = Some 0
   \<and> family (ex_gene ex_orgA 1) = Some 1
   \<and> organism (ex_gene ex_orgA 0) = organism (ex_gene ex_orgA 1)
   \<and> map_of (edgeGetter Pangenome_init) {Some 0, Some 1} = None
   \<and> fst ex_first_addEdge = Inr 0
   \<and> fst ex_second_addEdge = Inr 0
   \<and> next_edge (snd (snd ex_second_addEdge)) = 1
   \<and> edgeGetter (fst (snd ex_second_addEdge)) = [({Some 0, Some 1}, 0)]
   \<and> genePairs (edge_heap (snd (snd ex_second_addEdge)) 0)
       = [(ex_gene ex_orgA 0, ex_gene ex_orgA 1),
          (ex_gene ex_orgA 1, ex_gene ex_orgA 0)]"
proof -
  have a: "family (ex_gene ex_orgA 0) = Some 0"
    and b: "family (ex_gene ex_orgA 1) = Some 1"
    and c: "organism (ex_gene ex_orgA 0) = organism (ex_gene ex_orgA 1)"
    by (simp_all add: ex_gene_def ex_digit_def)
  have d: "map_of (edgeGetter Pangenome_init) {Some 0, Some 1} = None"
    by (simp add: Pangenome_init_def)
  have e1: "addEdge Pangenome_init (ex_heap False)
              (ex_gene ex_orgA 0) (ex_gene ex_orgA 1)
            = (fst ex_first_addEdge, fst (snd ex_first_addEdge), snd (snd ex_first_addEdge))"
    by (simp add: ex_first_addEdge_def)
  have e2: "addEdge (fst (snd ex_first_addEdge)) (snd (snd ex_first_addEdge))
              (ex_gene ex_orgA 1) (ex_gene ex_orgA 0)
            = (fst ex_second_addEdge, fst (snd ex_second_addEdge),
               snd (snd ex_second_addEdge))"
    by (simp add: ex_second_addEdge_def)
  have n: "next_edge (ex_heap False) = 0"
    by (simp add: ex_heap_def)
  have g: "edgeGetter Pangenome_init = []"
    by (simp add: Pangenome_init_def)
  from addEdge_swapped_one_edge [OF a b c d e1 e2] a b c d show ?thesis
    by (simp add: n g)
qed

section \<open>Pangenome.addRegions\<close>

text \<open>
  C5. Claimed: addRegions accepts a single Region and unions it into the region set
  of the pangenome. What the code does: for every pangenome and every Region, the
  call with the Region itself raises TypeError and the region set is what it was.
\<close>

theorem addRegions_single_Region_raises:
  "addRegions self (A_Region r) = (Inl TypeError, self)"
  by (simp add: addRegions_def set_ior_def)

section \<open>Pangenome.computeFamilyBitarrays\<close>

lemma computeFamilyBitarrays_index_exists:
  "orgIndex self = Some idx \<Longrightarrow> computeFamilyBitarrays self h = (Inr idx, self, h)"
  by (simp add: computeFamilyBitarrays_def)

lemma computeFamilyBitarrays_sets_index:
  assumes "computeFamilyBitarrays self h = (r, self', h')"
  shows "\<exists>idx. orgIndex self' = Some idx"
proof (cases "orgIndex self")
  case None
  with assms show ?thesis
    by (auto simp: computeFamilyBitarrays_def getIndex_def Let_def split: prod.splits sum.splits)
next
  case (Some idx)
  with assms show ?thesis
    by (simp add: computeFamilyBitarrays_def)
qed

text \<open>
  C9. computeFamilyBitarrays is idempotent: whatever the first call did, it leaves
  the organism index in place, and a second call on the state it left returns that
  index and changes nothing, neither the pangenome nor any family's bitarray; it
  does not recompute.
\<close>

theorem computeFamilyBitarrays_idempotent:
  assumes "computeFamilyBitarrays self h = (r, self', h')"
  shows "\<exists>idx. orgIndex self' = Some idx
           \<and> computeFamilyBitarrays self' h' = (Inr idx, self', h')"
proof -
  from computeFamilyBitarrays_sets_index [OF assms]
  obtain idx where "orgIndex self' = Some idx" ..
  then show ?thesis
    by (simp add: computeFamilyBitarrays_index_exists)
qed

lemma ex_computeFamilyBitarrays:
  "computeFamilyBitarrays ex_pangenome (ex_heap False)
     = (Inr [(ex_orgA, 0), (ex_orgB, 1)],
        ex_pangenome\<lparr>orgIndex := Some [(ex_orgA, 0), (ex_orgB, 1)]\<rparr>,
        (ex_heap False)\<lparr>fam_heap := (ex_family
             (0 := (ex_family 0)\<lparr>pg_bitarray := Some 3\<rparr>,
              1 := (ex_family 1)\<lparr>pg_bitarray := Some 3\<rparr>))\<rparr>)"
  by (simp add: computeFamilyBitarrays_def getIndex_def ex_pangenome_def Pangenome_init_def
      ex_heap_def mkBitarray_def dict_getitem_def ex_family_def Let_def enumerate_eq_zip
      ex_orgA_def ex_orgB_def GeneFamily_pg_init_def set_bit_eq_or push_bit_eq_mult)

theorem computeFamilyBitarrays_idempotent_witness:
  "computeFamilyBitarrays ex_pangenome (ex_heap False)
     = (Inr [(ex_orgA, 0), (ex_orgB, 1)],
        ex_pangenome\<lparr>orgIndex := Some [(ex_orgA, 0), (ex_orgB, 1)]\<rparr>,
        (ex_heap False)\<lparr>fam_heap := (ex_family
             (0 := (ex_family 0)\<lparr>pg_bitarray := Some 3\<rparr>,
              1 := (ex_family 1)\<lparr>pg_bitarray := Some 3\<rparr>))\<rparr>)
   \<and> computeFamilyBitarrays
         (ex_pangenome\<lparr>orgIndex := Some [(ex_orgA, 0), (ex_orgB, 1)]\<rparr>)
         ((ex_heap False)\<lparr>fam_heap := (ex_family
             (0 := (ex_family 0)\<lparr>pg_bitarray := Some 3\<rparr>,
              1 := (ex_family 1)\<lparr>pg_bitarray := Some 3\<rparr>))\<rparr>)
     = (Inr [(ex_orgA, 0), (ex_orgB, 1)],
        ex_pangenome\<lparr>orgIndex := Some [(ex_orgA, 0), (ex_orgB, 1)]\<rparr>,
        (ex_heap False)\<lparr>fam_heap := (ex_family
             (0 := (ex_family 0)\<lparr>pg_bitarray := Some 3\<rparr>,
              1 := (ex_family 1)\<lparr>pg_bitarray := Some 3\<rparr>))\<rparr>)"
  using computeFamilyBitarrays_idempotent [OF ex_computeFamilyBitarrays]
    ex_computeFamilyBitarrays
  by simp

section \<open>GeneFamily.number_of_genes\<close>

text \<open>
  C7. Claimed: number_of_genes returns the number of genes stored in the family,
  without failing. What the code does: the property reads the attribute \<open>_genes\<close>,
  which no GeneFamily has, and raises AttributeError for every family, where
  \<open>__len__\<close>, which reads \<open>_genes_getter\<close>, returns the number of genes.
\<close>

theorem number_of_genes_raises:
  "number_of_genes self = Inl AttributeError
   \<and> GeneFamily_len self = Inr (length (genes_getter self))"
  by (simp add: number_of_genes_def GeneFamily_len_def len_of_attribute_def)

section \<open>GeneFamily.mk_bitarray\<close>








text \<open>
  The condition on \<open>_genePerOrg\<close> holds of a family as \<open>__init__\<close> builds it, and
  \<open>add\<close> keeps it.
\<close>

lemma GeneFamily_init_complete:
  "GeneFamily_init i n = Inr self \<Longrightarrow> genePerOrg_complete self"
  by (auto simp: GeneFamily_init_def genePerOrg_complete_def map_filter_def
      split: if_splits)

lemma GeneFamily_add_complete:
  assumes "genePerOrg_complete self"
    and "GeneFamily_add self_ref self gene = (Inr (), self')"
  shows "genePerOrg_complete self'"
proof -
  let ?gene' = "gene\<lparr>family := Some self_ref\<rparr>"
  from assms(2) have absent: "map_of (genes_getter self) (gene_ID gene) = None"
    by (auto simp: GeneFamily_add_def GeneFamily_setitem_def Let_def map_of_eq_None_iff
        split: if_splits)
  from assms(2) have getter:
    "genes_getter self' = genes_getter self @ [(gene_ID gene, ?gene')]"
    by (auto simp: GeneFamily_add_def GeneFamily_setitem_def Let_def
        update_absent_appends [OF absent] split: if_splits option.splits)
  show ?thesis
  proof (cases "organism gene")
    case None
    with assms(2) have "genePerOrg self' = genePerOrg self"
      by (auto simp: GeneFamily_add_def GeneFamily_setitem_def Let_def split: if_splits)
    with assms(1) getter None show ?thesis
      by (simp add: genePerOrg_complete_def map_filter_def)
  next
    case (Some org)
    with assms(2) have
      "genePerOrg self' = defaultdict_add (genePerOrg self) org ?gene'"
      by (auto simp: GeneFamily_add_def GeneFamily_setitem_def Let_def split: if_splits)
    with assms(1) getter Some show ?thesis
      by (auto simp: genePerOrg_complete_def map_filter_def defaultdict_add_def dom_update)
  qed
qed









text \<open>
  C10. With a partition argument that is none of all, shell, cloud, accessory,
  mk_bitarray does not fail: it returns normally and the bitarray of the family is
  the zero value, whatever organisms the family is present in.
\<close>

theorem mk_bitarray_unknown_partition:
  "part \<notin> {''all'', ''shell'', ''cloud'', ''accessory''} \<Longrightarrow>
     mk_bitarray self index part = (Inr (), self\<lparr>bitarray := Some 0\<rparr>)"
  by (simp add: mk_bitarray_def)

theorem mk_bitarray_unknown_partition_witness:
  "''persistent'' \<notin> {''all'', ''shell'', ''cloud'', ''accessory''}
   \<and> mk_bitarray ex_GeneFamily ex_index ''persistent''
       = (Inr (), ex_GeneFamily\<lparr>bitarray := Some 0\<rparr>)
   \<and> fst ` set (genePerOrg ex_GeneFamily) = {ex_orgA, ex_orgC}"
proof -
  have h: "''persistent'' \<notin> {''all'', ''shell'', ''cloud'', ''accessory''}"
    by simp
  show ?thesis
    using h mk_bitarray_unknown_partition [OF h, of ex_GeneFamily ex_index]
    by (simp add: ex_GeneFamily_def)
qed

end
